theory Spec2Isabelle
  imports Main
begin

section \<open>Data model\<close>

text \<open>
  The two-factor configuration \<open>IAuth.ITwoFactor.IAuth\<close> is declared in the package
  \<open>@hsuite/auth-types\<close>. Its shape is taken from the examples in the doc comments of
  \<open>updateTwoFactorAuth\<close> (\<open>enabled\<close>, \<open>secret\<close>, \<open>backupCodes\<close>) and of the README
  (\<open>verified\<close>); every field of the JavaScript object may be left out.
\<close>

record ITwoFactorAuth =
  enabled :: "bool option"
  secret :: "string option"
  verified :: "bool option"
  backupCodes :: "string list option"

text \<open>
  The schema of \<open>User\<close> leaves Mongoose's option \<open>minimize\<close> at its default: an object without
  fields is not stored by \<open>save()\<close> and not returned by \<open>toJSON()\<close>. What a document holds
  under \<open>twoFactorAuth\<close> is therefore no configuration at all (\<open>None\<close>) or a configuration
  with at least one field. \<open>minimize\<close> takes a value of the path to what the document holds,
  \<open>config_of\<close> reads it back.
\<close>

definition no_fields :: ITwoFactorAuth where
  "no_fields = \<lparr>enabled = None, secret = None, verified = None, backupCodes = None\<rparr>"

typedef stored_config = "{c :: ITwoFactorAuth option. c \<noteq> Some no_fields}"
  by (rule exI [of _ None]) simp

setup_lifting type_definition_stored_config

lift_definition minimize :: "ITwoFactorAuth option \<Rightarrow> stored_config"
  is "\<lambda>c. if c = Some no_fields then None else c"
  by simp

lift_definition config_of :: "stored_config \<Rightarrow> ITwoFactorAuth option"
  is "\<lambda>c. c" .

text \<open>
  A document of the collection \<open>auth_users\<close>: the paths of \<open>User\<close> (which extends
  \<open>UserNamespace.Safe\<close>) that the services read or assign. \<open>uid\<close> is MongoDB's \<open>_id\<close>.
  A path that may be missing or \<open>null\<close> is an option; \<open>banned\<close> is the tri-state the
  filter of \<open>find\<close> tests. \<open>updated_at\<close> is the field \<open>updatePassword\<close> assigns; the
  \<open>createdAt\<close> and \<open>updatedAt\<close> that Mongoose keeps by itself under the schema option
  \<open>timestamps\<close> are left out.
\<close>

record User =
  uid :: string
  email :: "string option"
  username :: "string option"
  password :: string
  role :: string
  confirmed :: bool
  banned :: "bool option"
  twoFactorAuth :: stored_config
  updated_at :: "int option"

text \<open>
  What a service method hands around: a live Mongoose document, which has the methods
  \<open>save\<close>, \<open>deleteOne\<close> and \<open>toJSON\<close>, or the plain object that \<open>toJSON()\<close> returns, which
  has the same fields and none of the methods. \<open>None\<close> of \<open>UserDocument option\<close> stands for
  \<open>null\<close> and \<open>undefined\<close>.
\<close>

datatype UserDocument = Document User | Plain User

fun doc_user :: "UserDocument \<Rightarrow> User" where
  "doc_user (Document u) = u"
| "doc_user (Plain u) = u"

text \<open>
  Every way a promise of the services is rejected: \<open>bcrypt.hash\<close> without data, Mongoose's
  validation and the unique indexes on insert, a \<open>save\<close> of a document that is gone, the
  explicit \<open>new Error("user doesn't exist.")\<close>, and the \<open>TypeError\<close> JavaScript raises
  when a property of \<open>null\<close> is used or a missing method is called.
\<close>

datatype error =
    BcryptError
  | ValidationError
  | DuplicateKeyError
  | DocumentNotFoundError
  | UserDoesntExist
  | TypeError

type_synonym 'a promise = "error + 'a"

text \<open>
  \<open>ISignup\<close> and \<open>ILogin\<close> of \<open>@hsuite/auth-types\<close>: one object with \<open>email\<close>, \<open>username\<close>
  and \<open>password\<close>. \<open>updatePassword\<close> itself passes \<open>null\<close> for two of them.
\<close>

record credentials =
  c_email :: "string option"
  c_username :: "string option"
  c_password :: "string option"

text \<open>
  The argument of \<open>create\<close>: declared an \<open>ISignup\<close>, and handed a whole \<open>User\<close> by
  \<open>UsersService.create\<close>. Besides the three credentials it may carry any other path of the
  document; \<open>None\<close> is a key that is missing or \<open>undefined\<close>, and where the path itself may
  be \<open>null\<close> the value given is an option again.
\<close>

record signup = credentials +
  c_uid :: "string option"
  c_role :: "string option"
  c_confirmed :: "bool option"
  c_banned :: "bool option option"
  c_twoFactorAuth :: "ITwoFactorAuth option option"
  c_updated_at :: "int option option"

text \<open>
  The state the services act on: the collection in its natural (insertion) order, and the
  trace of persistence writes and of emitted events, in the order they happen.
\<close>

datatype effect = Saved User | Deleted User | Emitted string "UserDocument option"

record app_state =
  auth_users :: "User list"
  trace :: "effect list"

text \<open>
  What a call takes from outside the two services: the function \<open>bcrypt.hash\<close> with the salt
  it draws made an argument, the salt of this call, the reading of \<open>moment().unix()\<close>, the
  \<open>ObjectId\<close> a new document gets, and the document the schema of \<open>UserNamespace.Safe\<close>
  (package \<open>@hsuite/users-types\<close>) builds from its defaults.
\<close>

record env =
  bcrypt_hash :: "string \<Rightarrow> nat \<Rightarrow> string \<Rightarrow> string"
  salt :: string
  now :: int
  new_id :: string
  schema_defaults :: User

section \<open>JavaScript and Mongoose primitives\<close>

text \<open>\<open>if (x)\<close> on a string that may be \<open>null\<close>: the empty string is falsy too.\<close>

fun truthy :: "string option \<Rightarrow> bool" where
  "truthy None = False"
| "truthy (Some s) = (s \<noteq> [])"

text \<open>The filter object of \<open>find\<close>: \<open>banned: {$in: [...]}\<close> and the two optional equalities.\<close>

record filters =
  f_banned_in :: "bool option list"
  f_username :: "string option"
  f_email :: "string option"

definition matches :: "filters \<Rightarrow> User \<Rightarrow> bool" where
  "matches f u =
     (banned u \<in> set (f_banned_in f)
      \<and> (case f_username f of None \<Rightarrow> True | Some n \<Rightarrow> username u = Some n)
      \<and> (case f_email f of None \<Rightarrow> True | Some e \<Rightarrow> email u = Some e))"

text \<open>\<open>Model.findOne(filters)\<close>: the first document that matches, or \<open>null\<close>.\<close>

definition model_findOne :: "app_state \<Rightarrow> filters \<Rightarrow> UserDocument option" where
  "model_findOne st f = map_option Document (List.find (matches f) (auth_users st))"

text \<open>\<open>Model.findById(id)\<close>: whatever the ban status.\<close>

definition model_findById :: "app_state \<Rightarrow> string \<Rightarrow> UserDocument option" where
  "model_findById st i = map_option Document (List.find (\<lambda>u. uid u = i) (auth_users st))"

text \<open>\<open>userDocument?.toJSON()\<close>: \<open>undefined\<close> on \<open>null\<close>; a plain object has no such method.\<close>

fun doc_toJSON :: "UserDocument option \<Rightarrow> UserDocument option promise" where
  "doc_toJSON None = Inr None"
| "doc_toJSON (Some (Document u)) = Inr (Some (Plain u))"
| "doc_toJSON (Some (Plain u)) = Inl TypeError"

text \<open>Assigning to a property of \<open>userDocument\<close>: a \<open>TypeError\<close> on \<open>null\<close>.\<close>

fun doc_assign :: "UserDocument option \<Rightarrow> (User \<Rightarrow> User) \<Rightarrow> UserDocument promise" where
  "doc_assign None f = Inl TypeError"
| "doc_assign (Some (Document u)) f = Inr (Document (f u))"
| "doc_assign (Some (Plain u)) f = Inr (Plain (f u))"

text \<open>
  \<open>new this.userModel({...newUser, password, role: 'user'})\<close>: every key of the argument but
  \<open>password\<close> is spread into the object, then \<open>password\<close> and \<open>role\<close> are set, so a
  \<open>role\<close> of the argument is overwritten. A path the object gives has that value, any other
  path the schema's default; \<open>_id\<close> is the fresh \<open>ObjectId\<close> unless the object brings one.
\<close>

definition new_userModel :: "env \<Rightarrow> signup \<Rightarrow> string \<Rightarrow> string \<Rightarrow> User" where
  "new_userModel ev newUser p r =
     (let d = schema_defaults ev
      in d\<lparr>uid := (case c_uid newUser of None \<Rightarrow> new_id ev | Some i \<Rightarrow> i),
           email := (case c_email newUser of None \<Rightarrow> email d | Some e \<Rightarrow> Some e),
           username := (case c_username newUser of None \<Rightarrow> username d | Some n \<Rightarrow> Some n),
           confirmed := (case c_confirmed newUser of None \<Rightarrow> confirmed d | Some b \<Rightarrow> b),
           banned := (case c_banned newUser of None \<Rightarrow> banned d | Some b \<Rightarrow> b),
           twoFactorAuth :=
             (case c_twoFactorAuth newUser of None \<Rightarrow> twoFactorAuth d | Some c \<Rightarrow> minimize c),
           updated_at := (case c_updated_at newUser of None \<Rightarrow> updated_at d | Some t \<Rightarrow> t),
           password := p,
           role := r\<rparr>)"

text \<open>
  Modelled from the spec: the schema of \<open>UserNamespace.Safe\<close> (package
  \<open>@hsuite/users-types\<close>) is not among the sources. The spec (sections 4.1, 6 and 7) has
  \<open>email\<close> and \<open>username\<close> required and unique, each on its own, and has a creation that
  breaks one of these rules fail with \<open>ValidationError\<close>.
\<close>

definition safe_schema_error :: "User list \<Rightarrow> User \<Rightarrow> error option" where
  "safe_schema_error us u =
     (if \<not> (truthy (email u) \<and> truthy (username u)) then Some ValidationError
      else if list_ex (\<lambda>v. email v = email u \<or> username v = username u) us
      then Some ValidationError
      else None)"

text \<open>
  \<open>save()\<close> of a new document, with \<open>validateBeforeSave\<close>: the schema of \<open>User\<close> makes
  \<open>password\<close> required, the rules of \<open>UserNamespace.Safe\<close> apply, MongoDB keeps \<open>_id\<close>
  unique, and the document goes to the end of the collection.
\<close>

definition save_new :: "app_state \<Rightarrow> User \<Rightarrow> app_state promise" where
  "save_new st u =
     (if password u = [] then Inl ValidationError
      else case safe_schema_error (auth_users st) u of
             Some e \<Rightarrow> Inl e
           | None \<Rightarrow>
               (if list_ex (\<lambda>v. uid v = uid u) (auth_users st) then Inl DuplicateKeyError
                else Inr (st\<lparr>auth_users := auth_users st @ [u],
                             trace := trace st @ [Saved u]\<rparr>)))"

text \<open>
  \<open>userDocument.save()\<close> of a document that was loaded: the document with its \<open>_id\<close> is
  written back. A plain object has no \<open>save\<close>.
\<close>

fun doc_save :: "app_state \<Rightarrow> UserDocument \<Rightarrow> app_state promise" where
  "doc_save st (Plain u) = Inl TypeError"
| "doc_save st (Document u) =
     (if list_ex (\<lambda>v. uid v = uid u) (auth_users st)
      then Inr (st\<lparr>auth_users := map (\<lambda>v. if uid v = uid u then u else v) (auth_users st),
                    trace := trace st @ [Saved u]\<rparr>)
      else Inl DocumentNotFoundError)"

text \<open>\<open>userDocument.deleteOne()\<close>: a \<open>TypeError\<close> on \<open>undefined\<close> and on a plain object.\<close>

fun doc_deleteOne :: "app_state \<Rightarrow> UserDocument option \<Rightarrow> app_state promise" where
  "doc_deleteOne st None = Inl TypeError"
| "doc_deleteOne st (Some (Plain u)) = Inl TypeError"
| "doc_deleteOne st (Some (Document u)) =
     Inr (st\<lparr>auth_users := filter (\<lambda>v. uid v \<noteq> uid u) (auth_users st),
              trace := trace st @ [Deleted u]\<rparr>)"

text \<open>\<open>this.eventEmitter.emit(name, userDocument)\<close>.\<close>

definition emit :: "app_state \<Rightarrow> string \<Rightarrow> UserDocument option \<Rightarrow> app_state" where
  "emit st name payload = st\<lparr>trace := trace st @ [Emitted name payload]\<rparr>"

text \<open>
  The end of most methods: \<open>if (toJSON) resolve(userDocument?.toJSON()) else
  resolve(userDocument)\<close>.
\<close>

definition resolve_doc :: "bool \<Rightarrow> UserDocument option \<Rightarrow> UserDocument option promise" where
  "resolve_doc toJSON userDocument =
     (if toJSON then doc_toJSON userDocument else Inr userDocument)"

section \<open>UserModelService\<close>

definition build_filters :: "credentials \<Rightarrow> filters" where
  "build_filters user =
     (let filters = \<lparr>f_banned_in = [Some False, None], f_username = None, f_email = None\<rparr>;
          filters = (if truthy (c_username user)
                     then filters\<lparr>f_username := c_username user\<rparr> else filters);
          filters = (if truthy (c_email user)
                     then filters\<lparr>f_email := c_email user\<rparr> else filters)
      in filters)"

definition UserModelService_find ::
  "app_state \<Rightarrow> credentials \<Rightarrow> bool \<Rightarrow> UserDocument option promise" where
  "UserModelService_find st user toJSON =
     (let userDocument = model_findOne st (build_filters user)
      in resolve_doc toJSON userDocument)"

definition UserModelService_findById ::
  "app_state \<Rightarrow> string \<Rightarrow> bool \<Rightarrow> UserDocument option promise" where
  "UserModelService_findById st i toJSON =
     (let userDocument = model_findById st i
      in resolve_doc toJSON userDocument)"

definition UserModelService_create ::
  "env \<Rightarrow> app_state \<Rightarrow> signup \<Rightarrow> bool \<Rightarrow> app_state \<times> UserDocument option promise" where
  "UserModelService_create ev st user toJSON =
     (case c_password user of
        None \<Rightarrow> (st, Inl BcryptError)
      | Some raw \<Rightarrow>
          (let password = bcrypt_hash ev raw 10 (salt ev);
               userDocument = new_userModel ev user password ''user''
           in case save_new st userDocument of
                Inl e \<Rightarrow> (st, Inl e)
              | Inr st1 \<Rightarrow>
                  (let st2 = emit st1 ''users/create'' (Some (Document userDocument))
                   in (st2, resolve_doc toJSON (Some (Document userDocument))))))"

definition UserModelService_updatePassword ::
  "env \<Rightarrow> app_state \<Rightarrow> string \<Rightarrow> string \<Rightarrow> bool \<Rightarrow> app_state \<times> UserDocument option promise"
  where
  "UserModelService_updatePassword ev st userEmail newPassword toJSON =
     (let password = bcrypt_hash ev newPassword 10 (salt ev)
      in case UserModelService_find st
                \<lparr>c_email = Some userEmail, c_username = None, c_password = None\<rparr> False of
           Inl e \<Rightarrow> (st, Inl e)
         | Inr found \<Rightarrow>
             (case doc_assign found (\<lambda>u. u\<lparr>password := password, updated_at := Some (now ev)\<rparr>) of
                Inl e \<Rightarrow> (st, Inl e)
              | Inr userDocument \<Rightarrow>
                  (case doc_save st userDocument of
                     Inl e \<Rightarrow> (st, Inl e)
                   | Inr st1 \<Rightarrow>
                       (let st2 = emit st1 ''users/password_updated'' (Some userDocument)
                        in (st2, resolve_doc toJSON (Some userDocument))))))"

definition UserModelService_emailConfirmation ::
  "app_state \<Rightarrow> string \<Rightarrow> app_state \<times> UserDocument option promise" where
  "UserModelService_emailConfirmation st userId =
     (case model_findById st userId of
        None \<Rightarrow> (st, Inl UserDoesntExist)
      | Some found \<Rightarrow>
          (case doc_assign (Some found) (\<lambda>u. u\<lparr>confirmed := True\<rparr>) of
             Inl e \<Rightarrow> (st, Inl e)
           | Inr userDocument \<Rightarrow>
               (case doc_save st userDocument of
                  Inl e \<Rightarrow> (st, Inl e)
                | Inr st1 \<Rightarrow>
                    (let st2 = emit st1 ''users/confirmed'' (Some userDocument)
                     in (st2, doc_toJSON (Some userDocument))))))"

text \<open>
  \<open>userDocument.twoFactorAuth = twoFactorAuth\<close>, then \<open>save()\<close> and \<open>toJSON()\<close>: the document
  holds the configuration as those two keep it, so the object without fields becomes no
  configuration.
\<close>

definition UserModelService_updateTwoFactorAuth ::
  "app_state \<Rightarrow> string \<Rightarrow> ITwoFactorAuth \<Rightarrow> app_state \<times> UserDocument option promise" where
  "UserModelService_updateTwoFactorAuth st userId cfg =
     (case model_findById st userId of
        None \<Rightarrow> (st, Inl UserDoesntExist)
      | Some found \<Rightarrow>
          (case doc_assign (Some found) (\<lambda>u. u\<lparr>twoFactorAuth := minimize (Some cfg)\<rparr>) of
             Inl e \<Rightarrow> (st, Inl e)
           | Inr userDocument \<Rightarrow>
               (case doc_save st userDocument of
                  Inl e \<Rightarrow> (st, Inl e)
                | Inr st1 \<Rightarrow>
                    (let st2 = emit st1 ''users/2fa'' (Some userDocument)
                     in (st2, doc_toJSON (Some userDocument))))))"

text \<open>
  \<open>delete\<close> calls \<open>this.find(user)\<close> with \<open>toJSON\<close> at its default \<open>true\<close>, and calls
  \<open>deleteOne()\<close> on what that resolves to.
\<close>

definition UserModelService_delete ::
  "app_state \<Rightarrow> credentials \<Rightarrow> bool \<Rightarrow> app_state \<times> UserDocument option promise" where
  "UserModelService_delete st user toJSON =
     (case UserModelService_find st user True of
        Inl e \<Rightarrow> (st, Inl e)
      | Inr userDocument \<Rightarrow>
          (case doc_deleteOne st userDocument of
             Inl e \<Rightarrow> (st, Inl e)
           | Inr st1 \<Rightarrow>
               (let st2 = emit st1 ''users/delete'' userDocument
                in (st2, resolve_doc toJSON userDocument))))"

section \<open>UsersService\<close>

text \<open>
  Each method awaits the method of the same name of \<open>UserModelService\<close>, with the
  arguments it was given and \<open>toJSON\<close> left at its default, and resolves with the value or
  rejects with the error caught.
\<close>

definition UsersService_create ::
  "env \<Rightarrow> app_state \<Rightarrow> signup \<Rightarrow> app_state \<times> UserDocument option promise" where
  "UsersService_create ev st user =
     (case UserModelService_create ev st user True of
        (st1, Inr userDocument) \<Rightarrow> (st1, Inr userDocument)
      | (st1, Inl error) \<Rightarrow> (st1, Inl error))"

definition UsersService_findById :: "app_state \<Rightarrow> string \<Rightarrow> UserDocument option promise" where
  "UsersService_findById st userId =
     (case UserModelService_findById st userId True of
        Inr userDocument \<Rightarrow> Inr userDocument
      | Inl error \<Rightarrow> Inl error)"

definition UsersService_find :: "app_state \<Rightarrow> credentials \<Rightarrow> UserDocument option promise" where
  "UsersService_find st user =
     (case UserModelService_find st user True of
        Inr userDocument \<Rightarrow> Inr userDocument
      | Inl error \<Rightarrow> Inl error)"

definition UsersService_updateTwoFactorAuth ::
  "app_state \<Rightarrow> string \<Rightarrow> ITwoFactorAuth \<Rightarrow> app_state \<times> UserDocument option promise" where
  "UsersService_updateTwoFactorAuth st userId cfg =
     (case UserModelService_updateTwoFactorAuth st userId cfg of
        (st1, Inr userDocument) \<Rightarrow> (st1, Inr userDocument)
      | (st1, Inl error) \<Rightarrow> (st1, Inl error))"

definition UsersService_updatePassword ::
  "env \<Rightarrow> app_state \<Rightarrow> string \<Rightarrow> string \<Rightarrow> app_state \<times> UserDocument option promise" where
  "UsersService_updatePassword ev st userEmail newPassword =
     (case UserModelService_updatePassword ev st userEmail newPassword True of
        (st1, Inr userDocument) \<Rightarrow> (st1, Inr userDocument)
      | (st1, Inl error) \<Rightarrow> (st1, Inl error))"

definition UsersService_emailConfirmation ::
  "app_state \<Rightarrow> string \<Rightarrow> app_state \<times> UserDocument option promise" where
  "UsersService_emailConfirmation st userId =
     (case UserModelService_emailConfirmation st userId of
        (st1, Inr userDocument) \<Rightarrow> (st1, Inr userDocument)
      | (st1, Inl error) \<Rightarrow> (st1, Inl error))"

definition UsersService_delete ::
  "app_state \<Rightarrow> credentials \<Rightarrow> app_state \<times> UserDocument option promise" where
  "UsersService_delete st user =
     (case UserModelService_delete st user True of
        (st1, Inr userDocument) \<Rightarrow> (st1, Inr userDocument)
      | (st1, Inl error) \<Rightarrow> (st1, Inl error))"

text \<open>One call of the public surface of the module, and what it does to the state.\<close>

datatype call =
    Create signup
  | FindById string
  | Find credentials
  | UpdateTwoFactorAuth string ITwoFactorAuth
  | UpdatePassword string string
  | EmailConfirmation string
  | Delete credentials

fun UsersService_call ::
  "env \<Rightarrow> app_state \<Rightarrow> call \<Rightarrow> app_state \<times> UserDocument option promise" where
  "UsersService_call ev st (Create user) = UsersService_create ev st user"
| "UsersService_call ev st (FindById userId) = (st, UsersService_findById st userId)"
| "UsersService_call ev st (Find user) = (st, UsersService_find st user)"
| "UsersService_call ev st (UpdateTwoFactorAuth userId cfg) =
     UsersService_updateTwoFactorAuth st userId cfg"
| "UsersService_call ev st (UpdatePassword userEmail newPassword) =
     UsersService_updatePassword ev st userEmail newPassword"
| "UsersService_call ev st (EmailConfirmation userId) = UsersService_emailConfirmation st userId"
| "UsersService_call ev st (Delete user) = UsersService_delete st user"

section \<open>Derived notions and sample data\<close>

text \<open>An account is active when \<open>banned\<close> is \<open>false\<close>, \<open>null\<close> or missing.\<close>

definition active :: "User \<Rightarrow> bool" where
  "active u = (banned u = Some False \<or> banned u = None)"

text \<open>The \<open>_id\<close>s of a collection are pairwise different.\<close>

definition ids_unique :: "app_state \<Rightarrow> bool" where
  "ids_unique st = distinct (map uid (auth_users st))"

text \<open>A stand-in for \<open>bcrypt.hash\<close> on which the theorems are run.\<close>

definition sample_hash :: "string \<Rightarrow> nat \<Rightarrow> string \<Rightarrow> string" where
  "sample_hash data rounds s = ''$2b$'' @ s @ rev data"

definition sample_defaults :: User where
  "sample_defaults =
     \<lparr>uid = [], email = None, username = None, password = [], role = ''user'',
      confirmed = False, banned = None, twoFactorAuth = minimize None, updated_at = None\<rparr>"

definition sample_env :: env where
  "sample_env =
     \<lparr>bcrypt_hash = sample_hash, salt = ''N9qo8uLOickgx2ZMRZoMye'', now = 1700000000,
      new_id = ''id3'', schema_defaults = sample_defaults\<rparr>"

definition alice :: User where
  "alice =
     \<lparr>uid = ''id1'', email = Some ''a@x.com'', username = Some ''a'',
      password = ''$2b$saltAAA654321wp'', role = ''user'', confirmed = True, banned = Some False,
      twoFactorAuth =
        minimize (Some \<lparr>enabled = Some True, secret = Some ''OLD'', verified = Some True,
                         backupCodes = Some [''12345'', ''67890'']\<rparr>),
      updated_at = None\<rparr>"

definition bob :: User where
  "bob =
     \<lparr>uid = ''id2'', email = Some ''b@x.com'', username = Some ''b'',
      password = ''$2b$saltBBBterces'', role = ''user'', confirmed = False, banned = Some True,
      twoFactorAuth = minimize None, updated_at = None\<rparr>"

definition sample_state :: app_state where
  "sample_state = \<lparr>auth_users = [bob, alice], trace = []\<rparr>"

text \<open>A signup, and the account \<open>create\<close> makes of it under \<open>sample_env\<close>.\<close>

definition carol_signup :: signup where
  "carol_signup =
     \<lparr>c_email = Some ''c@x.com'', c_username = Some ''c'', c_password = Some ''pw123456'',
      c_uid = None, c_role = None, c_confirmed = None, c_banned = None,
      c_twoFactorAuth = None, c_updated_at = None\<rparr>"

definition carol :: User where
  "carol =
     \<lparr>uid = ''id3'', email = Some ''c@x.com'', username = Some ''c'',
      password = ''$2b$N9qo8uLOickgx2ZMRZoMye654321wp'', role = ''user'', confirmed = False,
      banned = None, twoFactorAuth = minimize None, updated_at = None\<rparr>"

text \<open>A signup that carries the three credentials and no other path of the document.\<close>

definition only_signup_fields :: "signup \<Rightarrow> bool" where
  "only_signup_fields user =
     (c_uid user = None \<and> c_confirmed user = None \<and> c_banned user = None
      \<and> c_twoFactorAuth user = None \<and> c_updated_at user = None)"

text \<open>
  The two outcomes of a mutating operation, from the state before. Resolved: the call
  resolves with a document, it has added to the trace one persistence write and then one event
  of the given name, whose payload is the document written, and that document is the one
  stored under its \<open>_id\<close>. Rejected: the call rejects and the state is the one before.
\<close>

definition resolved_with_event ::
  "string \<Rightarrow> app_state \<Rightarrow> app_state \<times> UserDocument option promise \<Rightarrow> bool" where
  "resolved_with_event name st out =
     (case out of
        (st1, Inl e) \<Rightarrow> False
      | (st1, Inr r) \<Rightarrow>
          (case r of
             None \<Rightarrow> False
           | Some d \<Rightarrow>
               trace st1
                 = trace st @ [Saved (doc_user d), Emitted name (Some (Document (doc_user d)))]
               \<and> model_findById st1 (uid (doc_user d)) = Some (Document (doc_user d))))"

definition rejected_unchanged ::
  "app_state \<Rightarrow> app_state \<times> UserDocument option promise \<Rightarrow> bool" where
  "rejected_unchanged st out =
     (case out of
        (st1, Inl e) \<Rightarrow> st1 = st
      | (st1, Inr r) \<Rightarrow> False)"

section \<open>Auxiliary facts\<close>

text \<open>What a document holds after \<open>minimize\<close>: never the object without fields.\<close>

lemma config_of_minimize:
  "config_of (minimize c) = (if c = Some no_fields then None else c)"
  by transfer simp

lemma config_of_not_empty: "config_of s \<noteq> Some no_fields"
  by transfer simp

lemma minimize_empty: "minimize (Some no_fields) = minimize None"
  by transfer simp

lemma find_Some_mem: "List.find P xs = Some x \<Longrightarrow> x \<in> set xs \<and> P x"
  by (induction xs) (auto split: if_splits)

lemma find_uid_distinct:
  "distinct (map uid xs) \<Longrightarrow> u \<in> set xs \<Longrightarrow> List.find (\<lambda>v. uid v = uid u) xs = Some u"
  by (induction xs) (auto simp: image_iff)

lemma find_map_replace:
  "List.find (\<lambda>v. uid v = i) xs = Some u \<Longrightarrow> uid w = i \<Longrightarrow>
   List.find (\<lambda>v. uid v = i) (map (\<lambda>v. if uid v = i then w else v) xs) = Some w"
  by (induction xs) (auto split: if_splits)

lemma map_replace_same:
  "distinct (map uid xs) \<Longrightarrow> u \<in> set xs \<Longrightarrow> map (\<lambda>v. if uid v = uid u then u else v) xs = xs"
  by (rule map_idI) (auto simp: distinct_map dest: inj_onD)

lemma matches_build_filters:
  "matches (build_filters user) u =
     (active u
      \<and> (if truthy (c_username user) then username u = c_username user else True)
      \<and> (if truthy (c_email user) then email u = c_email user else True))"
  by (cases "c_username user"; cases "c_email user")
     (auto simp: matches_def build_filters_def active_def Let_def)

lemma find_result:
  "UserModelService_find st user False
     = Inr (map_option Document (List.find (matches (build_filters user)) (auth_users st)))"
  "UserModelService_find st user True
     = Inr (map_option Plain (List.find (matches (build_filters user)) (auth_users st)))"
  by (cases "List.find (matches (build_filters user)) (auth_users st)";
      simp add: UserModelService_find_def model_findOne_def resolve_doc_def)+

lemma findById_result:
  "UserModelService_findById st i False
     = Inr (map_option Document (List.find (\<lambda>u. uid u = i) (auth_users st)))"
  "UserModelService_findById st i True
     = Inr (map_option Plain (List.find (\<lambda>u. uid u = i) (auth_users st)))"
  by (cases "List.find (\<lambda>u. uid u = i) (auth_users st)";
      simp add: UserModelService_findById_def model_findById_def resolve_doc_def)+

lemma find_filter_conv:
  "List.find P xs = (case filter P xs of [] \<Rightarrow> None | x # _ \<Rightarrow> Some x)"
  by (induction xs) auto

lemma find_Some_list_ex: "List.find P xs = Some x \<Longrightarrow> list_ex P xs"
  by (auto simp: list_ex_iff dest: find_Some_mem)

lemma delete_rejects: "UserModelService_delete st user toJSON = (st, Inl TypeError)"
  by (cases "List.find (matches (build_filters user)) (auth_users st)")
     (simp_all add: UserModelService_delete_def find_result)

lemma find_replaced:
  "x \<in> set xs \<Longrightarrow> uid w = uid x \<Longrightarrow>
   List.find (\<lambda>v. uid v = uid x) (map (\<lambda>v. if uid v = uid x then w else v) xs) = Some w"
  by (induction xs) auto

lemma find_appended:
  "\<not> list_ex P xs \<Longrightarrow> P d \<Longrightarrow> List.find P (xs @ [d]) = Some d"
  by (induction xs) auto

lemma same_uid_same_account:
  "distinct (map uid xs) \<Longrightarrow> u \<in> set xs \<Longrightarrow> v \<in> set xs \<Longrightarrow> uid v = uid u \<Longrightarrow> v = u"
  by (auto simp: distinct_map dest: inj_onD)

lemma sample_hash_facts:
  "sample_hash p r s \<noteq> []" "sample_hash p r s \<noteq> p"
proof -
  show "sample_hash p r s \<noteq> []" by (simp add: sample_hash_def)
  have "length (sample_hash p r s) \<noteq> length p" by (simp add: sample_hash_def)
  then show "sample_hash p r s \<noteq> p" by auto
qed

text \<open>The wrappers of \<open>UsersService\<close>, unfolded.\<close>

lemma UsersService_unfold:
  "UsersService_create ev st newUser = UserModelService_create ev st newUser True"
  "UsersService_findById st userId = UserModelService_findById st userId True"
  "UsersService_find st user = UserModelService_find st user True"
  "UsersService_updateTwoFactorAuth st userId cfg
     = UserModelService_updateTwoFactorAuth st userId cfg"
  "UsersService_updatePassword ev st userEmail newPassword
     = UserModelService_updatePassword ev st userEmail newPassword True"
  "UsersService_emailConfirmation st userId = UserModelService_emailConfirmation st userId"
  "UsersService_delete st user = UserModelService_delete st user True"
  unfolding UsersService_create_def UsersService_findById_def UsersService_find_def
    UsersService_updateTwoFactorAuth_def UsersService_updatePassword_def
    UsersService_emailConfirmation_def UsersService_delete_def
  by (simp_all split: prod.splits sum.splits)

text \<open>Each mutating operation in closed form: what it returns and the state it leaves.\<close>

lemma updatePassword_cases:
  "UserModelService_updatePassword ev st e p toJSON =
     (case List.find (matches (build_filters
                        \<lparr>c_email = Some e, c_username = None, c_password = None\<rparr>)) (auth_users st) of
        None \<Rightarrow> (st, Inl TypeError)
      | Some w \<Rightarrow>
          (let w' = w\<lparr>password := bcrypt_hash ev p 10 (salt ev), updated_at := Some (now ev)\<rparr>
           in (st\<lparr>auth_users := map (\<lambda>v. if uid v = uid w then w' else v) (auth_users st),
                  trace := trace st @ [Saved w', Emitted ''users/password_updated''
                                                   (Some (Document w'))]\<rparr>,
               Inr (Some (if toJSON then Plain w' else Document w')))))"
proof (cases "List.find (matches (build_filters
                \<lparr>c_email = Some e, c_username = None, c_password = None\<rparr>)) (auth_users st)")
  case None
  then show ?thesis
    by (simp add: UserModelService_updatePassword_def find_result)
next
  case (Some w)
  then have "list_ex (\<lambda>v. uid v = uid w) (auth_users st)"
    by (auto simp: list_ex_iff dest: find_Some_mem)
  with Some show ?thesis
    by (simp add: UserModelService_updatePassword_def find_result emit_def resolve_doc_def Let_def)
qed

lemma emailConfirmation_cases:
  "UserModelService_emailConfirmation st i =
     (case List.find (\<lambda>v. uid v = i) (auth_users st) of
        None \<Rightarrow> (st, Inl UserDoesntExist)
      | Some w \<Rightarrow>
          (let w' = w\<lparr>confirmed := True\<rparr>
           in (st\<lparr>auth_users := map (\<lambda>v. if uid v = uid w then w' else v) (auth_users st),
                  trace := trace st @ [Saved w', Emitted ''users/confirmed''
                                                   (Some (Document w'))]\<rparr>,
               Inr (Some (Plain w')))))"
proof (cases "List.find (\<lambda>v. uid v = i) (auth_users st)")
  case None
  then show ?thesis
    by (simp add: UserModelService_emailConfirmation_def model_findById_def)
next
  case (Some w)
  then have "list_ex (\<lambda>v. uid v = uid w) (auth_users st)"
    by (auto simp: list_ex_iff dest: find_Some_mem)
  with Some show ?thesis
    by (simp add: UserModelService_emailConfirmation_def model_findById_def emit_def Let_def)
qed

lemma updateTwoFactorAuth_cases:
  "UserModelService_updateTwoFactorAuth st i cfg =
     (case List.find (\<lambda>v. uid v = i) (auth_users st) of
        None \<Rightarrow> (st, Inl UserDoesntExist)
      | Some w \<Rightarrow>
          (let w' = w\<lparr>twoFactorAuth := minimize (Some cfg)\<rparr>
           in (st\<lparr>auth_users := map (\<lambda>v. if uid v = uid w then w' else v) (auth_users st),
                  trace := trace st @ [Saved w', Emitted ''users/2fa'' (Some (Document w'))]\<rparr>,
               Inr (Some (Plain w')))))"
proof (cases "List.find (\<lambda>v. uid v = i) (auth_users st)")
  case None
  then show ?thesis
    by (simp add: UserModelService_updateTwoFactorAuth_def model_findById_def)
next
  case (Some w)
  then have "list_ex (\<lambda>v. uid v = uid w) (auth_users st)"
    by (auto simp: list_ex_iff dest: find_Some_mem)
  with Some show ?thesis
    by (simp add: UserModelService_updateTwoFactorAuth_def model_findById_def emit_def Let_def)
qed

lemma create_cases:
  "UserModelService_create ev st user toJSON =
     (case c_password user of
        None \<Rightarrow> (st, Inl BcryptError)
      | Some raw \<Rightarrow>
          (let d = new_userModel ev user (bcrypt_hash ev raw 10 (salt ev)) ''user''
           in if password d = [] \<or> safe_schema_error (auth_users st) d \<noteq> None
              then (st, Inl ValidationError)
              else if list_ex (\<lambda>v. uid v = uid d) (auth_users st)
              then (st, Inl DuplicateKeyError)
              else (st\<lparr>auth_users := auth_users st @ [d],
                       trace := trace st @ [Saved d, Emitted ''users/create'' (Some (Document d))]\<rparr>,
                    Inr (Some (if toJSON then Plain d else Document d)))))"
  by (simp add: UserModelService_create_def save_new_def safe_schema_error_def emit_def
        resolve_doc_def Let_def split: option.splits)

text \<open>An update that keeps \<open>_id\<close> and \<open>confirmed\<close> keeps every confirmed account confirmed.\<close>

lemma confirmed_kept_replace:
  assumes "distinct (map uid xs)" "u \<in> set xs" "confirmed u" "w \<in> set xs"
    and "confirmed w \<Longrightarrow> confirmed w'"
    and "u' \<in> set (map (\<lambda>v. if uid v = uid w then w' else v) xs)" "uid u' = uid u"
    and "uid w' = uid w"
  shows "confirmed u'"
proof -
  from assms(6) obtain v where v: "v \<in> set xs" "u' = (if uid v = uid w then w' else v)"
    by auto
  show ?thesis
  proof (cases "uid v = uid w")
    case True
    with v assms have "uid w = uid u" by simp
    with assms have "w = u" by (auto dest: same_uid_same_account)
    with True v assms show ?thesis by simp
  next
    case False
    with v assms have "v = u" by (auto dest: same_uid_same_account)
    with False v assms show ?thesis by simp
  qed
qed

lemma confirmed_kept_call:
  assumes "ids_unique st" "u \<in> set (auth_users st)" "confirmed u"
    and "u' \<in> set (auth_users (fst (UsersService_call ev st c)))" "uid u' = uid u"
  shows "confirmed u'"
proof -
  have d: "distinct (map uid (auth_users st))"
    using assms(1) by (simp add: ids_unique_def)
  have same: "u' \<in> set (auth_users st) \<Longrightarrow> confirmed u'"
    using same_uid_same_account[OF d assms(2) _ assms(5)] assms(3) by auto
  show ?thesis
  proof (cases c)
    case (Create user)
    with assms(2,4,5) same show ?thesis
      by (auto simp: UsersService_unfold create_cases Let_def list_ex_iff
            split: option.splits if_splits)
  next
    case (FindById i)
    with assms(4) same show ?thesis by simp
  next
    case (Find user)
    with assms(4) same show ?thesis by simp
  next
    case (UpdateTwoFactorAuth i cfg)
    show ?thesis
    proof (cases "List.find (\<lambda>v. uid v = i) (auth_users st)")
      case None
      with UpdateTwoFactorAuth assms(4) same show ?thesis
        by (simp add: UsersService_unfold updateTwoFactorAuth_cases)
    next
      case (Some w)
      then have "w \<in> set (auth_users st)" by (auto dest: find_Some_mem)
      from confirmed_kept_replace[OF d assms(2,3) this, of "w\<lparr>twoFactorAuth := minimize (Some cfg)\<rparr>" u']
        Some UpdateTwoFactorAuth assms(4,5)
      show ?thesis
        by (simp add: UsersService_unfold updateTwoFactorAuth_cases Let_def)
    qed
  next
    case (UpdatePassword e p)
    show ?thesis
    proof (cases "List.find (matches (build_filters
                     \<lparr>c_email = Some e, c_username = None, c_password = None\<rparr>)) (auth_users st)")
      case None
      with UpdatePassword assms(4) same show ?thesis
        by (simp add: UsersService_unfold updatePassword_cases)
    next
      case (Some w)
      then have "w \<in> set (auth_users st)" by (auto dest: find_Some_mem)
      from confirmed_kept_replace[OF d assms(2,3) this,
             of "w\<lparr>password := bcrypt_hash ev p 10 (salt ev), updated_at := Some (now ev)\<rparr>" u']
        Some UpdatePassword assms(4,5)
      show ?thesis
        by (simp add: UsersService_unfold updatePassword_cases Let_def)
    qed
  next
    case (EmailConfirmation i)
    show ?thesis
    proof (cases "List.find (\<lambda>v. uid v = i) (auth_users st)")
      case None
      with EmailConfirmation assms(4) same show ?thesis
        by (simp add: UsersService_unfold emailConfirmation_cases)
    next
      case (Some w)
      then have "w \<in> set (auth_users st)" by (auto dest: find_Some_mem)
      from confirmed_kept_replace[OF d assms(2,3) this, of "w\<lparr>confirmed := True\<rparr>" u']
        Some EmailConfirmation assms(4,5)
      show ?thesis
        by (simp add: UsersService_unfold emailConfirmation_cases Let_def)
    qed
  next
    case (Delete user)
    with assms(4) same show ?thesis
      by (simp add: UsersService_unfold delete_rejects)
  qed
qed

lemma matches_email_only:
  "e \<noteq> [] \<Longrightarrow>
   matches (build_filters \<lparr>c_email = Some e, c_username = None, c_password = None\<rparr>)
     = (\<lambda>u. active u \<and> email u = Some e)"
  by (rule ext) (simp add: matches_build_filters)

lemma map_uid_replace:
  "uid w' = uid w \<Longrightarrow> map (uid \<circ> (\<lambda>v. if uid v = uid w then w' else v)) xs = map uid xs"
  by (induction xs) auto

section \<open>The delegation layer\<close>

text \<open>
  C9. Each public operation of \<open>UsersService\<close> is, on every input, the operation of the same
  name of \<open>UserModelService\<close> (with \<open>toJSON\<close> at its default \<open>true\<close> where that operation
  has the parameter): the same state afterwards, the same resolved value, the same error.
\<close>

theorem UsersService_delegates:
  "UsersService_create ev st newUser = UserModelService_create ev st newUser True
   \<and> UsersService_findById st userId = UserModelService_findById st userId True
   \<and> UsersService_find st user = UserModelService_find st user True
   \<and> UsersService_updateTwoFactorAuth st userId cfg
       = UserModelService_updateTwoFactorAuth st userId cfg
   \<and> UsersService_updatePassword ev st userEmail newPassword
       = UserModelService_updatePassword ev st userEmail newPassword True
   \<and> UsersService_emailConfirmation st userId = UserModelService_emailConfirmation st userId
   \<and> UsersService_delete st user = UserModelService_delete st user True"
  unfolding UsersService_create_def UsersService_findById_def UsersService_find_def
    UsersService_updateTwoFactorAuth_def UsersService_updatePassword_def
    UsersService_emailConfirmation_def UsersService_delete_def
  by (simp split: prod.splits sum.splits)

section \<open>Credential lookup\<close>

text \<open>
  C10. When \<open>find\<close> is called with neither \<open>email\<close> nor \<open>username\<close> supplied (each
  \<open>null\<close>, missing or the empty string), it does not fail: the filter is the ban exclusion
  alone, and the call resolves with the first account of the collection that is not banned,
  or with an empty result when there is none.
\<close>

theorem find_without_email_or_username:
  "\<not> truthy (c_email user) \<Longrightarrow> \<not> truthy (c_username user) \<Longrightarrow>
   UserModelService_find st user False
     = Inr (map_option Document (List.find active (auth_users st)))
   \<and> UserModelService_find st user True
     = Inr (map_option Plain (List.find active (auth_users st)))"
proof -
  assume "\<not> truthy (c_email user)" and "\<not> truthy (c_username user)"
  then have "matches (build_filters user) = active"
    by (intro ext) (simp add: matches_build_filters)
  then show ?thesis
    by (simp add: find_result)
qed

theorem find_without_email_or_username_witness:
  "UserModelService_find sample_state \<lparr>c_email = Some [], c_username = None, c_password = None\<rparr> True
     = Inr (Some (Plain alice))
   \<and> UserModelService_find \<lparr>auth_users = [bob], trace = []\<rparr>
        \<lparr>c_email = Some [], c_username = None, c_password = None\<rparr> True = Inr None"
  using find_without_email_or_username
          [of "\<lparr>c_email = Some [], c_username = None, c_password = None\<rparr>" sample_state]
        find_without_email_or_username
          [of "\<lparr>c_email = Some [], c_username = None, c_password = None\<rparr>"
              "\<lparr>auth_users = [bob], trace = []\<rparr>"]
  by (simp add: sample_state_def active_def alice_def bob_def)

text \<open>
  C2. An account with \<open>banned == true\<close> is never what \<open>find\<close> resolves with, whatever the
  credentials and the \<open>toJSON\<close> flag, while \<open>findById\<close> with its identifier still resolves
  with it.
\<close>

theorem banned_hidden_from_find:
  "ids_unique st \<Longrightarrow> u \<in> set (auth_users st) \<Longrightarrow> banned u = Some True \<Longrightarrow>
   UserModelService_find st user toJSON \<noteq> Inr (Some (Document u))
   \<and> UserModelService_find st user toJSON \<noteq> Inr (Some (Plain u))
   \<and> UserModelService_findById st (uid u) False = Inr (Some (Document u))
   \<and> UserModelService_findById st (uid u) True = Inr (Some (Plain u))"
proof -
  assume unique: "ids_unique st" and stored: "u \<in> set (auth_users st)"
    and banned: "banned u = Some True"
  have "\<not> matches (build_filters user) u"
    using banned by (simp add: matches_build_filters active_def)
  then have "List.find (matches (build_filters user)) (auth_users st) \<noteq> Some u"
    by (auto dest: find_Some_mem)
  then have "UserModelService_find st user toJSON \<noteq> Inr (Some (Document u))"
    and "UserModelService_find st user toJSON \<noteq> Inr (Some (Plain u))"
    by (cases toJSON; auto simp: find_result)+
  moreover have "List.find (\<lambda>v. uid v = uid u) (auth_users st) = Some u"
    using unique stored by (simp add: ids_unique_def find_uid_distinct)
  ultimately show ?thesis
    by (simp add: findById_result)
qed

theorem banned_hidden_from_find_witness:
  "UserModelService_find sample_state
      \<lparr>c_email = Some ''b@x.com'', c_username = Some ''b'', c_password = None\<rparr> True
     \<noteq> Inr (Some (Plain bob))
   \<and> UserModelService_findById sample_state ''id2'' True = Inr (Some (Plain bob))"
proof -
  have "ids_unique sample_state"
    by (simp add: ids_unique_def sample_state_def alice_def bob_def)
  moreover have "bob \<in> set (auth_users sample_state)"
    by (simp add: sample_state_def)
  moreover have "banned bob = Some True"
    by (simp add: bob_def)
  ultimately show ?thesis
    using banned_hidden_from_find
            [of sample_state bob
                "\<lparr>c_email = Some ''b@x.com'', c_username = Some ''b'', c_password = None\<rparr>" True]
    by (simp add: bob_def)
qed

text \<open>
  C3. \<open>find\<close> run with an e-mail address that no account has: no account matches the
  filter, and the call does not reject; it resolves with an empty result.
\<close>

theorem find_no_match_resolves_empty:
  "filter (matches (build_filters
             \<lparr>c_email = Some ''nobody@x.com'', c_username = None, c_password = None\<rparr>))
      (auth_users sample_state) = []
   \<and> UserModelService_find sample_state
        \<lparr>c_email = Some ''nobody@x.com'', c_username = None, c_password = None\<rparr> True
      = Inr None"
  by (simp add: find_result matches_build_filters sample_state_def alice_def bob_def active_def)

text \<open>
  X4. What \<open>find\<close> does with its filter. The filter holds of an account exactly when the
  account is not banned and agrees with \<open>username\<close> and with \<open>email\<close>, each where the
  guard \<open>if (user.username)\<close>, \<open>if (user.email)\<close> lets it in. When exactly one account of
  the collection matches, \<open>find\<close> resolves with that account; when none matches, it resolves
  with an empty result.
\<close>

theorem find_single_match_or_empty:
  "(filter (matches (build_filters user)) (auth_users st) = [u] \<longrightarrow>
      UserModelService_find st user False = Inr (Some (Document u))
      \<and> UserModelService_find st user True = Inr (Some (Plain u)))
   \<and> (filter (matches (build_filters user)) (auth_users st) = [] \<longrightarrow>
      UserModelService_find st user toJSON = Inr None)
   \<and> matches (build_filters user) u =
      (active u
       \<and> (if truthy (c_username user) then username u = c_username user else True)
       \<and> (if truthy (c_email user) then email u = c_email user else True))"
proof (intro conjI impI)
  assume "filter (matches (build_filters user)) (auth_users st) = [u]"
  then have "List.find (matches (build_filters user)) (auth_users st) = Some u"
    by (simp add: find_filter_conv)
  then show "UserModelService_find st user False = Inr (Some (Document u))"
    and "UserModelService_find st user True = Inr (Some (Plain u))"
    by (simp_all add: find_result)
next
  assume "filter (matches (build_filters user)) (auth_users st) = []"
  then have "List.find (matches (build_filters user)) (auth_users st) = None"
    by (simp add: find_filter_conv)
  then show "UserModelService_find st user toJSON = Inr None"
    by (cases toJSON) (simp_all add: find_result)
next
  show "matches (build_filters user) u =
      (active u
       \<and> (if truthy (c_username user) then username u = c_username user else True)
       \<and> (if truthy (c_email user) then email u = c_email user else True))"
    by (rule matches_build_filters)
qed

theorem find_single_match_or_empty_witness:
  "UserModelService_find sample_state
      \<lparr>c_email = Some ''a@x.com'', c_username = Some ''a'', c_password = None\<rparr> True
     = Inr (Some (Plain alice))
   \<and> UserModelService_find sample_state
      \<lparr>c_email = Some ''a@x.com'', c_username = Some ''b'', c_password = None\<rparr> True
     = Inr None"
proof -
  have one: "filter (matches (build_filters
               \<lparr>c_email = Some ''a@x.com'', c_username = Some ''a'', c_password = None\<rparr>))
             (auth_users sample_state) = [alice]"
    by (simp add: matches_build_filters sample_state_def alice_def bob_def active_def)
  have none: "filter (matches (build_filters
               \<lparr>c_email = Some ''a@x.com'', c_username = Some ''b'', c_password = None\<rparr>))
             (auth_users sample_state) = []"
    by (simp add: matches_build_filters sample_state_def alice_def bob_def active_def)
  from find_single_match_or_empty
         [of "\<lparr>c_email = Some ''a@x.com'', c_username = Some ''a'', c_password = None\<rparr>"
             sample_state alice True] one
  have "UserModelService_find sample_state
          \<lparr>c_email = Some ''a@x.com'', c_username = Some ''a'', c_password = None\<rparr> True
        = Inr (Some (Plain alice))"
    by blast
  moreover from find_single_match_or_empty
         [of "\<lparr>c_email = Some ''a@x.com'', c_username = Some ''b'', c_password = None\<rparr>"
             sample_state alice True] none
  have "UserModelService_find sample_state
          \<lparr>c_email = Some ''a@x.com'', c_username = Some ''b'', c_password = None\<rparr> True
        = Inr None"
    by blast
  ultimately show ?thesis by simp
qed

section \<open>Password update\<close>

text \<open>
  C4. \<open>updatePassword\<close> run with the empty string as e-mail address: no account has that
  address, yet the call resolves, and the password of the first account that is not banned is
  the one overwritten.
\<close>

theorem updatePassword_empty_email_overwrites_first_active:
  "List.find (\<lambda>u. email u = Some []) (auth_users sample_state) = None
   \<and> UserModelService_updatePassword sample_env sample_state [] ''newpw789'' True
      = (\<lparr>auth_users =
            [bob, alice\<lparr>password := sample_hash ''newpw789'' 10 ''N9qo8uLOickgx2ZMRZoMye'',
                        updated_at := Some 1700000000\<rparr>],
          trace =
            [Saved (alice\<lparr>password := sample_hash ''newpw789'' 10 ''N9qo8uLOickgx2ZMRZoMye'',
                          updated_at := Some 1700000000\<rparr>),
             Emitted ''users/password_updated''
               (Some (Document
                  (alice\<lparr>password := sample_hash ''newpw789'' 10 ''N9qo8uLOickgx2ZMRZoMye'',
                         updated_at := Some 1700000000\<rparr>)))]\<rparr>,
         Inr (Some (Plain
                (alice\<lparr>password := sample_hash ''newpw789'' 10 ''N9qo8uLOickgx2ZMRZoMye'',
                       updated_at := Some 1700000000\<rparr>))))"
  by (simp add: UserModelService_updatePassword_def find_result matches_build_filters
        sample_state_def sample_env_def alice_def bob_def active_def emit_def resolve_doc_def
        Let_def)

text \<open>
  X2. With a non-empty e-mail address, \<open>updatePassword\<close> acts on the first account that is
  not banned and has that address: without one it rejects with the \<open>TypeError\<close> of assigning
  to \<open>null\<close> and changes nothing; with one it stores the new hash and the clock reading in
  \<open>updated_at\<close>, emits \<open>users/password_updated\<close> and resolves with the account.
\<close>

theorem updatePassword_by_nonempty_email:
  "userEmail \<noteq> [] \<Longrightarrow>
   UserModelService_updatePassword ev st userEmail newPassword toJSON =
     (case List.find (\<lambda>u. active u \<and> email u = Some userEmail) (auth_users st) of
        None \<Rightarrow> (st, Inl TypeError)
      | Some w \<Rightarrow>
          (let w' = w\<lparr>password := bcrypt_hash ev newPassword 10 (salt ev),
                      updated_at := Some (now ev)\<rparr>
           in (st\<lparr>auth_users := map (\<lambda>v. if uid v = uid w then w' else v) (auth_users st),
                  trace := trace st @ [Saved w', Emitted ''users/password_updated''
                                                   (Some (Document w'))]\<rparr>,
               Inr (Some (if toJSON then Plain w' else Document w')))))"
  by (simp add: updatePassword_cases matches_email_only)

theorem updatePassword_by_nonempty_email_witness:
  "UserModelService_updatePassword sample_env sample_state ''b@x.com'' ''newpw789'' True
     = (sample_state, Inl TypeError)
   \<and> snd (UserModelService_updatePassword sample_env sample_state ''a@x.com'' ''newpw789'' True)
     = Inr (Some (Plain (alice\<lparr>password := ''$2b$N9qo8uLOickgx2ZMRZoMye987wpwen'',
                               updated_at := Some 1700000000\<rparr>)))"
  using updatePassword_by_nonempty_email
          [of "''b@x.com''" sample_env sample_state "''newpw789''" True]
        updatePassword_by_nonempty_email
          [of "''a@x.com''" sample_env sample_state "''newpw789''" True]
  by (simp add: sample_state_def sample_env_def sample_hash_def alice_def bob_def active_def
        Let_def)

section \<open>Deletion\<close>

text \<open>
  C5. \<open>delete\<close> run with the credentials of an account that \<open>find\<close> resolves: the call
  rejects with a \<open>TypeError\<close>, the state is the one before, and \<open>findById\<close> still resolves
  with the account.
\<close>

theorem delete_leaves_account_in_place:
  "UserModelService_find sample_state
      \<lparr>c_email = Some ''a@x.com'', c_username = Some ''a'', c_password = Some ''pw123456''\<rparr> True
     = Inr (Some (Plain alice))
   \<and> UserModelService_delete sample_state
      \<lparr>c_email = Some ''a@x.com'', c_username = Some ''a'', c_password = Some ''pw123456''\<rparr> True
     = (sample_state, Inl TypeError)
   \<and> UsersService_delete sample_state
      \<lparr>c_email = Some ''a@x.com'', c_username = Some ''a'', c_password = Some ''pw123456''\<rparr>
     = (sample_state, Inl TypeError)
   \<and> UserModelService_findById sample_state ''id1'' True = Inr (Some (Plain alice))"
  by (simp add: UserModelService_delete_def UsersService_delete_def find_result findById_result
        matches_build_filters sample_state_def alice_def bob_def active_def)

text \<open>
  X1. On every input \<open>delete\<close> rejects with a \<open>TypeError\<close> and leaves the state as it was, in
  \<open>UserModelService\<close> and through \<open>UsersService\<close>.
\<close>

theorem delete_never_resolves:
  "UserModelService_delete st user toJSON = (st, Inl TypeError)
   \<and> UsersService_delete st user = (st, Inl TypeError)"
  by (simp add: UsersService_unfold delete_rejects)

section \<open>Two-factor configuration\<close>

text \<open>
  C7, as the claim states it, fails for the configuration without fields: after
  \<open>updateTwoFactorAuth\<close> with \<open>{}\<close> the account stored, and the one the call resolves with,
  have no \<open>twoFactorAuth\<close> at all, which is not the argument.
\<close>

theorem updateTwoFactorAuth_empty_config_unset:
  "snd (UserModelService_updateTwoFactorAuth sample_state ''id1''
          \<lparr>enabled = None, secret = None, verified = None, backupCodes = None\<rparr>)
     = Inr (Some (Plain (alice\<lparr>twoFactorAuth := minimize None\<rparr>)))
   \<and> model_findById
        (fst (UserModelService_updateTwoFactorAuth sample_state ''id1''
          \<lparr>enabled = None, secret = None, verified = None, backupCodes = None\<rparr>))
        ''id1''
     = Some (Document (alice\<lparr>twoFactorAuth := minimize None\<rparr>))
   \<and> config_of (twoFactorAuth (alice\<lparr>twoFactorAuth := minimize None\<rparr>)) = None
   \<and> config_of (twoFactorAuth (alice\<lparr>twoFactorAuth := minimize None\<rparr>))
     \<noteq> Some \<lparr>enabled = None, secret = None, verified = None, backupCodes = None\<rparr>"
proof -
  have e: "minimize (Some \<lparr>enabled = None, secret = None, verified = None, backupCodes = None\<rparr>)
             = minimize None"
    using minimize_empty by (simp add: no_fields_def)
  show ?thesis
    by (simp add: updateTwoFactorAuth_cases model_findById_def sample_state_def e Let_def
          config_of_minimize)
       (simp add: alice_def bob_def)
qed

text \<open>
  C7, amended. For an account that \<open>findById\<close> finds, \<open>updateTwoFactorAuth\<close> resolves with the
  account whose \<open>twoFactorAuth\<close> is replaced, every other field as before, and that is the
  account stored under the identifier afterwards. What replaces it is the configuration given,
  exactly, when that has at least one field, and no configuration when it has none; either way
  nothing of the configuration before is kept.
\<close>

theorem updateTwoFactorAuth_replaces_config:
  "model_findById st userId = Some (Document u) \<Longrightarrow>
   snd (UserModelService_updateTwoFactorAuth st userId cfg)
     = Inr (Some (Plain (u\<lparr>twoFactorAuth := minimize (Some cfg)\<rparr>)))
   \<and> model_findById (fst (UserModelService_updateTwoFactorAuth st userId cfg)) userId
     = Some (Document (u\<lparr>twoFactorAuth := minimize (Some cfg)\<rparr>))
   \<and> config_of (twoFactorAuth (u\<lparr>twoFactorAuth := minimize (Some cfg)\<rparr>))
     = (if cfg = no_fields then None else Some cfg)"
proof -
  assume a: "model_findById st userId = Some (Document u)"
  then have f: "List.find (\<lambda>v. uid v = userId) (auth_users st) = Some u"
    by (auto simp: model_findById_def)
  then have i: "uid u = userId" and m: "u \<in> set (auth_users st)"
    using find_Some_mem [OF f] by auto
  have r: "List.find (\<lambda>v. uid v = uid u)
             (map (\<lambda>v. if uid v = uid u then u\<lparr>twoFactorAuth := minimize (Some cfg)\<rparr> else v)
                (auth_users st))
           = Some (u\<lparr>twoFactorAuth := minimize (Some cfg)\<rparr>)"
    using find_replaced [OF m, of "u\<lparr>twoFactorAuth := minimize (Some cfg)\<rparr>"] by simp
  show ?thesis
    using f i r
    by (simp add: updateTwoFactorAuth_cases model_findById_def Let_def config_of_minimize)
qed

theorem updateTwoFactorAuth_replaces_config_witness:
  "snd (UserModelService_updateTwoFactorAuth sample_state ''id1''
          \<lparr>enabled = Some False, secret = Some ''NEW'', verified = None, backupCodes = None\<rparr>)
     = Inr (Some (Plain (alice\<lparr>twoFactorAuth :=
          minimize (Some \<lparr>enabled = Some False, secret = Some ''NEW'', verified = None,
                           backupCodes = None\<rparr>)\<rparr>)))
   \<and> model_findById
        (fst (UserModelService_updateTwoFactorAuth sample_state ''id1''
          \<lparr>enabled = Some False, secret = Some ''NEW'', verified = None, backupCodes = None\<rparr>))
        ''id1''
     = Some (Document (alice\<lparr>twoFactorAuth :=
          minimize (Some \<lparr>enabled = Some False, secret = Some ''NEW'', verified = None,
                           backupCodes = None\<rparr>)\<rparr>))
   \<and> config_of (twoFactorAuth (alice\<lparr>twoFactorAuth :=
          minimize (Some \<lparr>enabled = Some False, secret = Some ''NEW'', verified = None,
                           backupCodes = None\<rparr>)\<rparr>))
     = Some \<lparr>enabled = Some False, secret = Some ''NEW'', verified = None, backupCodes = None\<rparr>"
proof -
  have "model_findById sample_state ''id1'' = Some (Document alice)"
    by (simp add: model_findById_def sample_state_def alice_def bob_def)
  from updateTwoFactorAuth_replaces_config [OF this,
         of "\<lparr>enabled = Some False, secret = Some ''NEW'', verified = None, backupCodes = None\<rparr>"]
  show ?thesis
    by (simp add: no_fields_def)
qed

section \<open>Account creation\<close>

text \<open>
  C1. For a valid signup (the three credentials and no other path of the document; non-empty
  \<open>email\<close> and \<open>username\<close> that no stored account has; a fresh \<open>_id\<close>), \<open>create\<close> appends one
  account to the collection and resolves with it. Its \<open>password\<close> is \<open>bcrypt.hash\<close> of the raw
  password with cost 10 and this call's salt, which is not the raw password as long as
  \<open>bcrypt.hash\<close> never returns its input; its \<open>role\<close> is \<open>user\<close>, whatever \<open>role\<close> the signup
  brings; \<open>confirmed\<close> and \<open>twoFactorAuth\<close>, which the signup does not give, are what the schema
  defaults give, false and absent.
\<close>

theorem create_persists_hashed_password:
  assumes "c_email user = Some e" "e \<noteq> []" "c_username user = Some n" "n \<noteq> []"
    and "c_password user = Some raw"
    and "only_signup_fields user"
    and "\<not> list_ex (\<lambda>v. uid v = new_id ev \<or> email v = Some e \<or> username v = Some n)
              (auth_users st)"
    and "\<forall>p s. bcrypt_hash ev p 10 s \<noteq> [] \<and> bcrypt_hash ev p 10 s \<noteq> p"
    and "\<not> confirmed (schema_defaults ev)"
    and "config_of (twoFactorAuth (schema_defaults ev)) = None"
  shows "let d = new_userModel ev user (bcrypt_hash ev raw 10 (salt ev)) ''user''
         in UserModelService_create ev st user True
              = (st\<lparr>auth_users := auth_users st @ [d],
                    trace := trace st @ [Saved d, Emitted ''users/create'' (Some (Document d))]\<rparr>,
                 Inr (Some (Plain d)))
            \<and> uid d = new_id ev \<and> email d = Some e \<and> username d = Some n
            \<and> password d = bcrypt_hash ev raw 10 (salt ev) \<and> password d \<noteq> raw
            \<and> role d = ''user'' \<and> \<not> confirmed d \<and> config_of (twoFactorAuth d) = None"
proof -
  let ?d = "new_userModel ev user (bcrypt_hash ev raw 10 (salt ev)) ''user''"
  have fields: "uid ?d = new_id ev" "email ?d = Some e" "username ?d = Some n"
    "password ?d = bcrypt_hash ev raw 10 (salt ev)" "role ?d = ''user''"
    "confirmed ?d = confirmed (schema_defaults ev)"
    "twoFactorAuth ?d = twoFactorAuth (schema_defaults ev)"
    using assms(1,3,6) by (simp_all add: new_userModel_def only_signup_fields_def Let_def)
  have valid: "password ?d \<noteq> [] \<and> safe_schema_error (auth_users st) ?d = None"
    using assms(2,4,7,8) by (auto simp: safe_schema_error_def fields list_ex_iff)
  have fresh: "\<not> list_ex (\<lambda>v. uid v = uid ?d) (auth_users st)"
    using assms(7) by (auto simp: fields list_ex_iff)
  have "UserModelService_create ev st user True
          = (st\<lparr>auth_users := auth_users st @ [?d],
                trace := trace st @ [Saved ?d, Emitted ''users/create'' (Some (Document ?d))]\<rparr>,
             Inr (Some (Plain ?d)))"
    using valid fresh assms(5) by (simp add: create_cases Let_def)
  moreover have "password ?d \<noteq> raw" using assms(8) by (simp add: fields)
  ultimately show ?thesis
    using assms(9,10) by (simp add: Let_def fields)
qed

theorem create_persists_hashed_password_witness:
  "UserModelService_create sample_env sample_state carol_signup True
     = (\<lparr>auth_users = [bob, alice, carol],
         trace = [Saved carol, Emitted ''users/create'' (Some (Document carol))]\<rparr>,
        Inr (Some (Plain carol)))
   \<and> password carol \<noteq> ''pw123456''
   \<and> \<not> confirmed carol \<and> config_of (twoFactorAuth carol) = None"
proof -
  have d: "new_userModel sample_env carol_signup
             (bcrypt_hash sample_env ''pw123456'' 10 (salt sample_env)) ''user'' = carol"
    by (simp add: new_userModel_def sample_env_def sample_defaults_def sample_hash_def carol_def
          carol_signup_def Let_def)
  have h: "\<forall>p s. bcrypt_hash sample_env p 10 s \<noteq> [] \<and> bcrypt_hash sample_env p 10 s \<noteq> p"
    by (simp add: sample_env_def sample_hash_facts)
  have fresh: "\<not> list_ex (\<lambda>v. uid v = new_id sample_env \<or> email v = Some ''c@x.com''
                              \<or> username v = Some ''c'') (auth_users sample_state)"
    by (simp add: sample_env_def sample_state_def alice_def bob_def)
  have e: "c_email carol_signup = Some ''c@x.com''" "''c@x.com'' \<noteq> []"
    "c_username carol_signup = Some ''c''" "''c'' \<noteq> []"
    "c_password carol_signup = Some ''pw123456''"
    "only_signup_fields carol_signup"
    by (simp_all add: carol_signup_def only_signup_fields_def)
  have dflt: "\<not> confirmed (schema_defaults sample_env)"
    "config_of (twoFactorAuth (schema_defaults sample_env)) = None"
    by (simp_all add: sample_env_def sample_defaults_def config_of_minimize)
  from create_persists_hashed_password [OF e fresh h dflt]
  have "UserModelService_create sample_env sample_state carol_signup True
          = (sample_state\<lparr>auth_users := auth_users sample_state @ [carol],
               trace := trace sample_state
                 @ [Saved carol, Emitted ''users/create'' (Some (Document carol))]\<rparr>,
             Inr (Some (Plain carol)))
        \<and> password carol \<noteq> ''pw123456''
        \<and> \<not> confirmed carol \<and> config_of (twoFactorAuth carol) = None"
    unfolding d Let_def by blast
  then show ?thesis by (simp add: sample_state_def)
qed

text \<open>
  X6. \<open>create\<close> handed a signup that brings \<open>confirmed: true\<close>, a \<open>role\<close> and a
  \<open>twoFactorAuth\<close> of its own, as a whole \<open>User\<close> passed through \<open>UsersService.create\<close> does:
  the account stored is confirmed and has that configuration; only \<open>role\<close> is overwritten
  with \<open>user\<close>.
\<close>

theorem create_spreads_given_fields:
  "map (\<lambda>u. (uid u, role u, confirmed u, config_of (twoFactorAuth u)))
     (auth_users (fst (UsersService_create sample_env sample_state
        (carol_signup\<lparr>c_role := Some ''admin'', c_confirmed := Some True,
           c_twoFactorAuth := Some (Some \<lparr>enabled = Some True, secret = Some ''S'',
                                          verified = None, backupCodes = None\<rparr>)\<rparr>))))
   = [(''id2'', ''user'', False, None),
      (''id1'', ''user'', True,
         Some \<lparr>enabled = Some True, secret = Some ''OLD'', verified = Some True,
               backupCodes = Some [''12345'', ''67890'']\<rparr>),
      (''id3'', ''user'', True,
         Some \<lparr>enabled = Some True, secret = Some ''S'', verified = None, backupCodes = None\<rparr>)]"
  by (simp add: UsersService_unfold create_cases new_userModel_def safe_schema_error_def
        sample_env_def sample_defaults_def sample_hash_def sample_state_def carol_signup_def
        alice_def bob_def Let_def config_of_minimize no_fields_def)

section \<open>E-mail confirmation\<close>

text \<open>
  C6. \<open>emailConfirmation\<close> on an account of the collection that is already confirmed
  resolves with that account and leaves the collection as it was; and after any call of the
  public surface, an account that was confirmed and is still stored is confirmed.
\<close>

theorem emailConfirmation_idempotent_confirmed_monotone:
  "ids_unique st \<Longrightarrow> u \<in> set (auth_users st) \<Longrightarrow> confirmed u \<Longrightarrow>
   snd (UserModelService_emailConfirmation st (uid u)) = Inr (Some (Plain u))
   \<and> auth_users (fst (UserModelService_emailConfirmation st (uid u))) = auth_users st
   \<and> (\<forall>u' \<in> set (auth_users (fst (UsersService_call ev st c))). uid u' = uid u \<longrightarrow> confirmed u')"
proof -
  assume a: "ids_unique st" "u \<in> set (auth_users st)" "confirmed u"
  then have f: "List.find (\<lambda>v. uid v = uid u) (auth_users st) = Some u"
    by (simp add: ids_unique_def find_uid_distinct)
  have same: "u\<lparr>confirmed := True\<rparr> = u" using a(3) by simp
  have "map (\<lambda>v. if uid v = uid u then u else v) (auth_users st) = auth_users st"
    using a by (simp add: ids_unique_def map_replace_same)
  with f same have "snd (UserModelService_emailConfirmation st (uid u)) = Inr (Some (Plain u))"
    "auth_users (fst (UserModelService_emailConfirmation st (uid u))) = auth_users st"
    by (simp_all add: emailConfirmation_cases)
  with confirmed_kept_call[OF a] show ?thesis by blast
qed

theorem emailConfirmation_idempotent_confirmed_monotone_witness:
  "snd (UserModelService_emailConfirmation sample_state ''id1'') = Inr (Some (Plain alice))
   \<and> auth_users (fst (UserModelService_emailConfirmation sample_state ''id1''))
       = auth_users sample_state
   \<and> map confirmed
        (auth_users (fst (UsersService_call sample_env sample_state
                            (UpdatePassword ''a@x.com'' ''newpw789''))))
       = [False, True]"
proof -
  have u: "ids_unique sample_state"
    by (simp add: ids_unique_def sample_state_def alice_def bob_def)
  have m: "alice \<in> set (auth_users sample_state)"
    by (simp add: sample_state_def)
  have c: "confirmed alice" by (simp add: alice_def)
  have i: "uid alice = ''id1''" by (simp add: alice_def)
  have "map confirmed
          (auth_users (fst (UsersService_call sample_env sample_state
                              (UpdatePassword ''a@x.com'' ''newpw789''))))
        = [False, True]"
    by (simp add: UsersService_unfold updatePassword_cases matches_build_filters
          sample_state_def alice_def bob_def active_def Let_def)
  with emailConfirmation_idempotent_confirmed_monotone
         [OF u m c, of sample_env "UpdatePassword ''a@x.com'' ''newpw789''"]
  show ?thesis
    by (simp add: i)
qed

section \<open>Domain events\<close>

text \<open>
  C8. \<open>delete\<close> run with the credentials of an account that \<open>find\<close> resolves, with either
  value of \<open>toJSON\<close>: the call rejects and the trace stays empty, so nothing is deleted
  and no \<open>users/delete\<close> event is emitted.
\<close>

theorem delete_emits_no_event:
  "UsersService_find sample_state
      \<lparr>c_email = Some ''a@x.com'', c_username = Some ''a'', c_password = Some ''pw123456''\<rparr>
     = Inr (Some (Plain alice))
   \<and> trace (fst (UserModelService_delete sample_state
        \<lparr>c_email = Some ''a@x.com'', c_username = Some ''a'', c_password = Some ''pw123456''\<rparr>
        True)) = []
   \<and> trace (fst (UserModelService_delete sample_state
        \<lparr>c_email = Some ''a@x.com'', c_username = Some ''a'', c_password = Some ''pw123456''\<rparr>
        False)) = []
   \<and> isl (snd (UsersService_delete sample_state
        \<lparr>c_email = Some ''a@x.com'', c_username = Some ''a'', c_password = Some ''pw123456''\<rparr>))"
  by (simp add: UserModelService_delete_def UsersService_delete_def UsersService_find_def
        find_result matches_build_filters sample_state_def alice_def bob_def active_def)

text \<open>
  X5. The four operations that save. Each resolves exactly when its account is there
  (\<open>emailConfirmation\<close> and \<open>updateTwoFactorAuth\<close>: \<open>findById\<close> finds the identifier;
  \<open>updatePassword\<close>: \<open>find\<close> resolves an account; \<open>create\<close>: a password is given and the new
  document passes validation and the unique indexes). When it resolves it has added to the
  trace its \<open>save()\<close> followed by one event of its own name, whose payload is the document
  saved, the one stored afterwards and resolved with; otherwise it rejects and the state is
  the one before.
\<close>

theorem mutations_resolve_with_one_event:
  "(if model_findById st userId = None
    then rejected_unchanged st (UserModelService_emailConfirmation st userId)
    else resolved_with_event ''users/confirmed'' st (UserModelService_emailConfirmation st userId))
   \<and> (if model_findById st userId = None
       then rejected_unchanged st (UserModelService_updateTwoFactorAuth st userId cfg)
       else resolved_with_event ''users/2fa'' st
              (UserModelService_updateTwoFactorAuth st userId cfg))
   \<and> (if UserModelService_find st
             \<lparr>c_email = Some userEmail, c_username = None, c_password = None\<rparr> False = Inr None
       then rejected_unchanged st
              (UserModelService_updatePassword ev st userEmail newPassword toJSON)
       else resolved_with_event ''users/password_updated'' st
              (UserModelService_updatePassword ev st userEmail newPassword toJSON))
   \<and> (case c_password newUser of
         None \<Rightarrow> rejected_unchanged st (UserModelService_create ev st newUser toJSON)
       | Some raw \<Rightarrow>
           if isl (save_new st (new_userModel ev newUser (bcrypt_hash ev raw 10 (salt ev)) ''user''))
           then rejected_unchanged st (UserModelService_create ev st newUser toJSON)
           else resolved_with_event ''users/create'' st
                  (UserModelService_create ev st newUser toJSON))"
proof (intro conjI)
  show "if model_findById st userId = None
    then rejected_unchanged st (UserModelService_emailConfirmation st userId)
    else resolved_with_event ''users/confirmed'' st (UserModelService_emailConfirmation st userId)"
  proof (cases "List.find (\<lambda>v. uid v = userId) (auth_users st)")
    case None
    then show ?thesis
      by (simp add: model_findById_def emailConfirmation_cases rejected_unchanged_def)
  next
    case (Some w)
    then have "w \<in> set (auth_users st)" by (auto dest: find_Some_mem)
    with Some show ?thesis
      by (simp add: model_findById_def emailConfirmation_cases resolved_with_event_def
            find_replaced Let_def)
  qed
next
  show "if model_findById st userId = None
       then rejected_unchanged st (UserModelService_updateTwoFactorAuth st userId cfg)
       else resolved_with_event ''users/2fa'' st
              (UserModelService_updateTwoFactorAuth st userId cfg)"
  proof (cases "List.find (\<lambda>v. uid v = userId) (auth_users st)")
    case None
    then show ?thesis
      by (simp add: model_findById_def updateTwoFactorAuth_cases rejected_unchanged_def)
  next
    case (Some w)
    then have "w \<in> set (auth_users st)" by (auto dest: find_Some_mem)
    with Some show ?thesis
      by (simp add: model_findById_def updateTwoFactorAuth_cases resolved_with_event_def
            find_replaced Let_def)
  qed
next
  show "if UserModelService_find st
             \<lparr>c_email = Some userEmail, c_username = None, c_password = None\<rparr> False = Inr None
       then rejected_unchanged st
              (UserModelService_updatePassword ev st userEmail newPassword toJSON)
       else resolved_with_event ''users/password_updated'' st
              (UserModelService_updatePassword ev st userEmail newPassword toJSON)"
  proof (cases "List.find (matches (build_filters
                  \<lparr>c_email = Some userEmail, c_username = None, c_password = None\<rparr>))
                  (auth_users st)")
    case None
    then show ?thesis
      by (simp add: find_result updatePassword_cases rejected_unchanged_def)
  next
    case (Some w)
    then have "w \<in> set (auth_users st)" by (auto dest: find_Some_mem)
    with Some show ?thesis
      by (simp add: find_result updatePassword_cases resolved_with_event_def model_findById_def
            find_replaced Let_def)
  qed
next
  show "case c_password newUser of
         None \<Rightarrow> rejected_unchanged st (UserModelService_create ev st newUser toJSON)
       | Some raw \<Rightarrow>
           if isl (save_new st (new_userModel ev newUser (bcrypt_hash ev raw 10 (salt ev)) ''user''))
           then rejected_unchanged st (UserModelService_create ev st newUser toJSON)
           else resolved_with_event ''users/create'' st
                  (UserModelService_create ev st newUser toJSON)"
    by (simp add: create_cases save_new_def rejected_unchanged_def resolved_with_event_def
          model_findById_def find_appended Let_def split: option.splits)
qed

theorem mutations_resolve_with_one_event_witness:
  "fst (UserModelService_emailConfirmation sample_state ''id9'') = sample_state
   \<and> isl (snd (UserModelService_emailConfirmation sample_state ''id9''))
   \<and> snd (UserModelService_emailConfirmation sample_state ''id2'')
     = Inr (Some (Plain (bob\<lparr>confirmed := True\<rparr>)))
   \<and> trace (fst (UserModelService_emailConfirmation sample_state ''id2''))
     = trace sample_state
       @ [Saved (bob\<lparr>confirmed := True\<rparr>),
          Emitted ''users/confirmed'' (Some (Document (bob\<lparr>confirmed := True\<rparr>)))]
   \<and> model_findById (fst (UserModelService_emailConfirmation sample_state ''id2'')) ''id2''
     = Some (Document (bob\<lparr>confirmed := True\<rparr>))"
proof -
  have r: "snd (UserModelService_emailConfirmation sample_state ''id2'')
             = Inr (Some (Plain (bob\<lparr>confirmed := True\<rparr>)))"
    by (simp add: emailConfirmation_cases sample_state_def alice_def bob_def Let_def)
  have i: "uid bob = ''id2''" by (simp add: bob_def)
  have there: "model_findById sample_state ''id2'' \<noteq> None"
    and gone: "model_findById sample_state ''id9'' = None"
    by (simp_all add: model_findById_def sample_state_def alice_def bob_def)
  note all = mutations_resolve_with_one_event
         [of sample_state _ no_fields "''a@x.com''" sample_env "''newpw789''" True carol_signup]
  from all [of "''id2''"] there
  have "resolved_with_event ''users/confirmed'' sample_state
          (UserModelService_emailConfirmation sample_state ''id2'')"
    by simp
  moreover from all [of "''id9''"] gone
  have "rejected_unchanged sample_state (UserModelService_emailConfirmation sample_state ''id9'')"
    by simp
  ultimately show ?thesis
    using r i
    by (cases "UserModelService_emailConfirmation sample_state ''id2''";
        cases "UserModelService_emailConfirmation sample_state ''id9''";
        cases "snd (UserModelService_emailConfirmation sample_state ''id9'')")
       (simp_all add: resolved_with_event_def rejected_unchanged_def)
qed

section \<open>The collection's identifiers\<close>

text \<open>
  X3. Every call of the public surface keeps the \<open>_id\<close>s of the collection pairwise
  different.
\<close>

theorem ids_unique_preserved:
  "ids_unique st \<Longrightarrow> ids_unique (fst (UsersService_call ev st c))"
proof (cases c)
  case (Create user)
  assume "ids_unique st"
  with Create show ?thesis
    by (auto simp: ids_unique_def UsersService_unfold create_cases Let_def list_ex_iff
          split: option.splits)
next
  case (FindById i)
  assume "ids_unique st"
  with FindById show ?thesis by simp
next
  case (Find user)
  assume "ids_unique st"
  with Find show ?thesis by simp
next
  case (UpdateTwoFactorAuth i cfg)
  assume "ids_unique st"
  with UpdateTwoFactorAuth show ?thesis
    by (simp add: ids_unique_def UsersService_unfold updateTwoFactorAuth_cases Let_def
          map_uid_replace split: option.splits)
next
  case (UpdatePassword e p)
  assume "ids_unique st"
  with UpdatePassword show ?thesis
    by (simp add: ids_unique_def UsersService_unfold updatePassword_cases Let_def
          map_uid_replace split: option.splits)
next
  case (EmailConfirmation i)
  assume "ids_unique st"
  with EmailConfirmation show ?thesis
    by (simp add: ids_unique_def UsersService_unfold emailConfirmation_cases Let_def
          map_uid_replace split: option.splits)
next
  case (Delete user)
  assume "ids_unique st"
  with Delete show ?thesis
    by (simp add: UsersService_unfold delete_rejects)
qed

theorem ids_unique_preserved_witness:
  "ids_unique (fst (UsersService_call sample_env sample_state (Create carol_signup)))
   \<and> map uid (auth_users (fst (UsersService_call sample_env sample_state (Create carol_signup))))
     = [''id2'', ''id1'', ''id3'']"
proof -
  have "ids_unique sample_state"
    by (simp add: ids_unique_def sample_state_def alice_def bob_def)
  from ids_unique_preserved [OF this, of sample_env "Create carol_signup"]
  show ?thesis
    by (simp add: UsersService_unfold create_cases Let_def sample_state_def sample_env_def
          sample_defaults_def sample_hash_def carol_signup_def alice_def bob_def
          new_userModel_def safe_schema_error_def)
qed

end
